theory Spec2Isabelle
  imports Main
begin

section \<open>Settings of \<^verbatim>\<open>main.py\<close>\<close>

text \<open>
  The module-level settings \<^verbatim>\<open>feed_delay_hr\<close> and \<^verbatim>\<open>feed_delay_min\<close> are Python
  integers, documented as greater than or equal to zero. The file ships with 6 and 0; its
  comment gives 6 and 30 as another setting. They are the fields of a record, so that a
  property can be stated for every setting.
\<close>

record settings =
  feed_delay_hr :: int
  feed_delay_min :: int

definition shipped_settings :: settings where
  "shipped_settings = \<lparr>feed_delay_hr = 6, feed_delay_min = 0\<rparr>"

text \<open>\<^verbatim>\<open>feed_delay_ms = (((feed_delay_hr * 60) + feed_delay_min) * 60) * 1_000\<close>\<close>

definition feed_delay_ms :: "settings \<Rightarrow> int" where
  "feed_delay_ms cfg = (((feed_delay_hr cfg * 60) + feed_delay_min cfg) * 60) * 1000"

definition ms_in_one_second :: int where
  "ms_in_one_second = 1000"

definition ms_in_one_minute :: int where
  "ms_in_one_minute = 1000 * 60"

definition ms_in_one_hour :: int where
  "ms_in_one_hour = 1000 * 60 * 60"

section \<open>The tick counter of the MicroPython runtime\<close>

text \<open>
  \<^verbatim>\<open>ticks_ms\<close> and \<^verbatim>\<open>ticks_diff\<close> are imported from \<^verbatim>\<open>utime\<close>: they belong to the
  MicroPython runtime, not to this repository, and the two definitions of this section
  are written from the documentation of that library instead of from \<^verbatim>\<open>main.py\<close>.
  \<^verbatim>\<open>ticks_ms()\<close> returns a counter in the range from 0 to \<^verbatim>\<open>TICKS_PERIOD - 1\<close>
  that wraps around; the period is a power of two, \<open>2 ^ 30\<close> on the 32-bit ports (the
  Raspberry Pi Pico among them), where the counter has to fit a small integer.
  \<^verbatim>\<open>ticks_diff(ticks1, ticks2)\<close> is documented to return a signed value in the range
  from \<^verbatim>\<open>-TICKS_PERIOD/2\<close> to \<^verbatim>\<open>TICKS_PERIOD/2 - 1\<close>, and to give a wrong result
  when the two values are half a period or more apart; the runtime computes it as
  \<^verbatim>\<open>((ticks1 - ticks2 + TICKS_PERIOD/2) & (TICKS_PERIOD - 1)) - TICKS_PERIOD/2\<close>.
  Masking with \<^verbatim>\<open>TICKS_PERIOD - 1\<close> is the remainder modulo the period, which is how
  the definition writes it.
\<close>

definition TICKS_PERIOD :: int where
  "TICKS_PERIOD = 2 ^ 30"

definition ticks_diff :: "int \<Rightarrow> int \<Rightarrow> int" where
  "ticks_diff ticks1 ticks2 =
     ((ticks1 - ticks2 + TICKS_PERIOD div 2) mod TICKS_PERIOD) - TICKS_PERIOD div 2"

section \<open>Console output\<close>

text \<open>
  The f-string of the countdown message formats two Python integers in decimal, with a
  leading minus sign for a negative one.
\<close>

definition digit_char :: "nat \<Rightarrow> char" where
  "digit_char d = ''0123456789'' ! d"

function str_nat :: "nat \<Rightarrow> string" where
  "str_nat n = (if n < 10 then [digit_char n] else str_nat (n div 10) @ [digit_char (n mod 10)])"
  by pat_completeness auto
termination
  by (relation "measure (\<lambda>n. n)") auto

declare str_nat.simps [simp del]

definition str_int :: "int \<Rightarrow> string" where
  "str_int i = (if i < 0 then CHR ''-'' # str_nat (nat (- i)) else str_nat (nat i))"

section \<open>The controller\<close>

text \<open>
  The state of the program: the flag \<^verbatim>\<open>feeding_required\<close>, the tick value
  \<^verbatim>\<open>last_feeding_ticks\<close>, and the level of the output pin \<^verbatim>\<open>feed_indicator\<close>
  (\<open>True\<close> is HIGH, the LED lit).
\<close>

record controller =
  feeding_required :: bool
  last_feeding_ticks :: int
  feed_indicator :: bool

text \<open>
  At import \<^verbatim>\<open>feeding_required = True\<close>, \<^verbatim>\<open>last_feeding_ticks = 0\<close>, and the pin is
  created with \<^verbatim>\<open>value=feeding_required\<close>.
\<close>

definition power_on :: controller where
  "power_on =
     (let required = True
      in \<lparr>feeding_required = required, last_feeding_ticks = 0, feed_indicator = required\<rparr>)"

text \<open>
  What the peripherals answer during one iteration of the loop: the level of
  \<^verbatim>\<open>feed_button\<close> and the value of \<^verbatim>\<open>ticks_ms()\<close>. Each is read at most once in
  an iteration.
\<close>

record readings =
  button_value :: bool
  ticks_ms :: int

text \<open>What an iteration does besides changing the state: console lines and light sleeps.\<close>

datatype event = is_Print: Print string | is_Lightsleep: Lightsleep int

definition elapsed_ms :: "readings \<Rightarrow> controller \<Rightarrow> int" where
  "elapsed_ms inp s = ticks_diff (ticks_ms inp) (last_feeding_ticks s)"

definition remaining_hours :: "settings \<Rightarrow> int \<Rightarrow> int" where
  "remaining_hours cfg elapsed = feed_delay_hr cfg - (elapsed div ms_in_one_hour)"

text \<open>
  The conditional expression binds weaker than the subtraction, so the whole
  difference is the first branch.
\<close>

definition remaining_mins :: "settings \<Rightarrow> int \<Rightarrow> int" where
  "remaining_mins cfg elapsed =
     (if feed_delay_min cfg \<noteq> 0
      then feed_delay_min cfg
             - (elapsed - (remaining_hours cfg elapsed * ms_in_one_hour)) div ms_in_one_minute
      else 0)"

definition countdown_message :: "int \<Rightarrow> int \<Rightarrow> string" where
  "countdown_message hours mins =
     str_int hours @ '' hour(s) '' @ str_int mins @ '' minutes(s) until next feeding''"

text \<open>
  One iteration of \<^verbatim>\<open>while True\<close>. The branch that ends in \<^verbatim>\<open>continue\<close> returns
  without the light sleep; the other branch of the countdown falls through to it.
  Nothing in the body raises by itself (the two divisors are non-zero constants); the
  handlers around the loop end the program on an interrupt and are left out.
\<close>

definition tick :: "settings \<Rightarrow> readings \<Rightarrow> controller \<Rightarrow> controller \<times> event list" where
  "tick cfg inp s =
     (if feeding_required s then
        (if button_value inp then
           (s\<lparr>feed_indicator := False,
              last_feeding_ticks := ticks_ms inp,
              feeding_required := False\<rparr>,
            [Print ''The fish have been fed''])
         else (s, []))
      else
        (let elapsed = elapsed_ms inp s;
             hours = remaining_hours cfg elapsed;
             mins = remaining_mins cfg elapsed;
             line = Print (countdown_message hours mins)
         in if feed_delay_ms cfg \<le> elapsed
            then (s\<lparr>feeding_required := True, feed_indicator := True\<rparr>, [line])
            else (s, [line, Lightsleep ms_in_one_minute])))"

text \<open>
  The loop never ends by itself. Its first \<open>n\<close> iterations are a fold over the readings
  they get; \<open>run\<close> gives the state they reach and \<open>trace\<close> what they emit.
\<close>

fun run :: "settings \<Rightarrow> readings list \<Rightarrow> controller \<Rightarrow> controller" where
  "run cfg [] s = s"
| "run cfg (inp # inps) s = run cfg inps (fst (tick cfg inp s))"

fun trace :: "settings \<Rightarrow> readings list \<Rightarrow> controller \<Rightarrow> event list" where
  "trace cfg [] s = []"
| "trace cfg (inp # inps) s = snd (tick cfg inp s) @ trace cfg inps (fst (tick cfg inp s))"

fun lightsleep_total :: "event list \<Rightarrow> int" where
  "lightsleep_total [] = 0"
| "lightsleep_total (Print line # es) = lightsleep_total es"
| "lightsleep_total (Lightsleep ms # es) = ms + lightsleep_total es"

text \<open>
  The clock between iterations. An iteration lasts a few statements and at most one
  light sleep of a minute, so the counter readings of two consecutive iterations are
  less than half a tick period (\<open>2 ^ 29\<close> ms, about 6.2 days) apart:
  \<open>close_after\<close> says so of two readings, \<open>steady_clock\<close> of every two neighbours in
  a list.
\<close>

definition close_after :: "readings \<Rightarrow> readings \<Rightarrow> bool" where
  "close_after earlier later =
     ((ticks_ms later - ticks_ms earlier) mod TICKS_PERIOD < TICKS_PERIOD div 2)"

fun steady_clock :: "readings list \<Rightarrow> bool" where
  "steady_clock (earlier # later # rest) =
     (close_after earlier later \<and> steady_clock (later # rest))"
| "steady_clock _ = True"

section \<open>The indicator follows the flag\<close>

lemma tick_keeps_indicator:
  assumes "feed_indicator s = feeding_required s"
  shows "feed_indicator (fst (tick cfg inp s)) = feeding_required (fst (tick cfg inp s))"
  using assms by (simp add: tick_def Let_def)

text \<open>
  C1. In every state the controller reaches from power-on, after any number of
  iterations of the loop under any readings (none included, which is the power-on state
  itself), the indicator pin is HIGH exactly when \<^verbatim>\<open>feeding_required\<close> is true.
  An iteration is one step here: inside the branch of the button the pin goes LOW two
  statements before the flag is cleared.
\<close>

theorem indicator_follows_state:
  "feed_indicator (run cfg inps power_on) = feeding_required (run cfg inps power_on)"
proof -
  have kept: "feed_indicator (run cfg inps s) = feeding_required (run cfg inps s)"
    if "feed_indicator s = feeding_required s" for s
    using that
  proof (induction inps arbitrary: s)
    case Nil
    then show ?case by simp
  next
    case (Cons inp inps)
    from Cons.prems
    have "feed_indicator (fst (tick cfg inp s)) = feeding_required (fst (tick cfg inp s))"
      by (rule tick_keeps_indicator)
    then have "feed_indicator (run cfg inps (fst (tick cfg inp s)))
        = feeding_required (run cfg inps (fst (tick cfg inp s)))"
      by (rule Cons.IH)
    then show ?case by simp
  qed
  have "feed_indicator power_on = feeding_required power_on"
    by (simp add: power_on_def)
  then show ?thesis
    by (rule kept)
qed

section \<open>The window of \<^verbatim>\<open>ticks_diff\<close>\<close>

text \<open>
  Adding half a period, reducing modulo the period and taking the half away again maps
  a difference into the window from minus half a period to just below half a period.
\<close>

lemma ticks_period_pos: "0 < TICKS_PERIOD"
  by (simp add: TICKS_PERIOD_def)

lemma ticks_period_halves: "TICKS_PERIOD = 2 * (TICKS_PERIOD div 2)"
  by (simp add: TICKS_PERIOD_def)

lemma wrap_window:
  fixes x h :: int
  assumes "0 < h"
  shows "(x + h) mod (2 * h) - h =
           (if x mod (2 * h) < h then x mod (2 * h) else x mod (2 * h) - 2 * h)"
proof -
  define r where "r = x mod (2 * h)"
  have r0: "0 \<le> r" and rP: "r < 2 * h"
    using assms by (simp_all add: r_def)
  have shift: "(x + h) mod (2 * h) = (r + h) mod (2 * h)"
    unfolding r_def by (rule mod_add_left_eq [symmetric])
  show ?thesis
  proof (cases "r < h")
    case True
    then have "(r + h) mod (2 * h) = r + h"
      using r0 assms by (intro mod_pos_pos_trivial) linarith+
    with True show ?thesis
      unfolding shift r_def [symmetric] by simp
  next
    case False
    have "(r + h) mod (2 * h) = (r - h + 1 * (2 * h)) mod (2 * h)"
      by (rule arg_cong [where f = "\<lambda>v. v mod (2 * h)"]) linarith
    also have "\<dots> = (r - h) mod (2 * h)"
      by (rule mod_mult_self1)
    also have "\<dots> = r - h"
      using False rP by (intro mod_pos_pos_trivial) linarith+
    finally show ?thesis
      using False unfolding shift r_def [symmetric] by simp
  qed
qed

lemma ticks_diff_cases:
  "ticks_diff ticks1 ticks2 =
     (if (ticks1 - ticks2) mod TICKS_PERIOD < TICKS_PERIOD div 2
      then (ticks1 - ticks2) mod TICKS_PERIOD
      else (ticks1 - ticks2) mod TICKS_PERIOD - TICKS_PERIOD)"
proof -
  define h where "h = TICKS_PERIOD div 2"
  have P: "TICKS_PERIOD = 2 * h"
    unfolding h_def by (rule ticks_period_halves)
  have hpos: "0 < h"
    using ticks_period_pos unfolding P by linarith
  have "ticks_diff ticks1 ticks2 = (ticks1 - ticks2 + h) mod (2 * h) - h"
    unfolding ticks_diff_def h_def [symmetric] unfolding P ..
  also note wrap_window [OF hpos, of "ticks1 - ticks2"]
  finally show ?thesis
    unfolding h_def [symmetric] unfolding P .
qed

lemma ticks_diff_after:
  assumes "- (TICKS_PERIOD div 2) \<le> d" and "d < TICKS_PERIOD div 2"
  shows "ticks_diff ((t + d) mod TICKS_PERIOD) t = d"
proof -
  define h where "h = TICKS_PERIOD div 2"
  have P: "TICKS_PERIOD = 2 * h"
    unfolding h_def by (rule ticks_period_halves)
  have lo: "0 \<le> d + h" and hi: "d + h < 2 * h"
    using assms unfolding h_def by linarith+
  have "((t + d) mod (2 * h) - t + h) mod (2 * h) = ((t + d) mod (2 * h) + (h - t)) mod (2 * h)"
    by (rule arg_cong [where f = "\<lambda>v. v mod (2 * h)"]) linarith
  also have "\<dots> = ((t + d) + (h - t)) mod (2 * h)"
    by (rule mod_add_left_eq)
  also have "\<dots> = (d + h) mod (2 * h)"
    by (rule arg_cong [where f = "\<lambda>v. v mod (2 * h)"]) linarith
  also have "\<dots> = d + h"
    using lo hi by (rule mod_pos_pos_trivial)
  finally have "((t + d) mod (2 * h) - t + h) mod (2 * h) - h = d"
    by linarith
  then show ?thesis
    unfolding ticks_diff_def h_def [symmetric] unfolding P .
qed

section \<open>The countdown\<close>

text \<open>
  C2. With the settings 6 hours 30 minutes and 6 hours 15 minutes elapsed
  (22500000 ms) there are 0 hours and 15 minutes left, but the iteration prints 0 hours
  and -345 minutes: the minutes are taken from \<^verbatim>\<open>elapsed_ms - remaining_hours *
  ms_in_one_hour\<close>, where the hours already elapsed were meant, and here
  \<^verbatim>\<open>remaining_hours\<close> is 0, so all 375 elapsed minutes are subtracted from 30.
\<close>

theorem countdown_at_6h15_of_6h30:
  "feed_delay_ms \<lparr>feed_delay_hr = 6, feed_delay_min = 30\<rparr>
     - elapsed_ms \<lparr>button_value = False, ticks_ms = 22500000\<rparr>
         \<lparr>feeding_required = False, last_feeding_ticks = 0, feed_indicator = False\<rparr>
     = 0 * ms_in_one_hour + 15 * ms_in_one_minute
   \<and> snd (tick \<lparr>feed_delay_hr = 6, feed_delay_min = 30\<rparr>
              \<lparr>button_value = False, ticks_ms = 22500000\<rparr>
              \<lparr>feeding_required = False, last_feeding_ticks = 0, feed_indicator = False\<rparr>)
     = [Print ''0 hour(s) -345 minutes(s) until next feeding'', Lightsleep 60000]"
  by code_simp

text \<open>
  C7. When \<^verbatim>\<open>feed_delay_min\<close> is 0 the minutes of the countdown are 0 whatever
  time has elapsed, and the line printed by an iteration with no feeding required reads
  \<^verbatim>\<open>0 minutes(s)\<close>; the minutes are computed only in the other branch of the
  conditional expression.
\<close>

theorem minutes_suppressed_when_setting_is_zero:
  assumes "feed_delay_min cfg = 0"
    and "\<not> feeding_required s"
  shows "remaining_mins cfg elapsed = 0
       \<and> snd (tick cfg inp s)
           = Print (str_int (remaining_hours cfg (elapsed_ms inp s))
                    @ '' hour(s) 0 minutes(s) until next feeding'')
             # (if feed_delay_ms cfg \<le> elapsed_ms inp s then []
                else [Lightsleep ms_in_one_minute])"
proof -
  have zero: "str_int 0 = ''0''"
    by (simp add: str_int_def str_nat.simps digit_char_def)
  show ?thesis
    using assms by (simp add: tick_def remaining_mins_def countdown_message_def zero Let_def)
qed

text \<open>
  With the shipped settings of 6 hours and 15 minutes elapsed, 5 hours 45 minutes are
  left and the line says 6 hours 0 minutes.
\<close>

theorem minutes_suppressed_when_setting_is_zero_witness:
  "feed_delay_min shipped_settings = 0
   \<and> \<not> feeding_required
        \<lparr>feeding_required = False, last_feeding_ticks = 0, feed_indicator = False\<rparr>
   \<and> feed_delay_ms shipped_settings
        - elapsed_ms \<lparr>button_value = False, ticks_ms = 900000\<rparr>
            \<lparr>feeding_required = False, last_feeding_ticks = 0, feed_indicator = False\<rparr>
       = 5 * ms_in_one_hour + 45 * ms_in_one_minute
   \<and> snd (tick shipped_settings \<lparr>button_value = False, ticks_ms = 900000\<rparr>
        \<lparr>feeding_required = False, last_feeding_ticks = 0, feed_indicator = False\<rparr>)
       = [Print ''6 hour(s) 0 minutes(s) until next feeding'', Lightsleep 60000]"
proof -
  let ?s = "\<lparr>feeding_required = False, last_feeding_ticks = 0, feed_indicator = False\<rparr>"
  let ?inp = "\<lparr>button_value = False, ticks_ms = 900000\<rparr>"
  have elapsed: "elapsed_ms ?inp ?s = 900000"
    by (simp add: elapsed_ms_def ticks_diff_def TICKS_PERIOD_def)
  have six: "str_int 6 = ''6''"
    by (simp add: str_int_def str_nat.simps digit_char_def)
  have setting: "feed_delay_min shipped_settings = 0"
    by (simp add: shipped_settings_def)
  have waiting: "\<not> feeding_required ?s"
    by simp
  from minutes_suppressed_when_setting_is_zero [OF setting waiting, of 0 ?inp]
  show ?thesis
    by (simp add: elapsed six remaining_hours_def shipped_settings_def feed_delay_ms_def
        ms_in_one_hour_def ms_in_one_minute_def)
qed

section \<open>Elapsed time\<close>

text \<open>
  C4, as the code has it. Let \<open>d\<close> milliseconds, less than one tick period, have
  passed since \<^verbatim>\<open>last_feeding_ticks\<close> was taken, so that the counter reads that value
  plus \<open>d\<close> modulo the period, wrapped or not. When \<open>d\<close> is below half the period,
  \<^verbatim>\<open>elapsed_ms\<close> is exactly \<open>d\<close>; from half the period on it is \<open>d\<close> minus the
  period, a negative value.
\<close>

theorem elapsed_is_forward_duration:
  assumes "0 \<le> d"
    and "d < TICKS_PERIOD"
    and "ticks_ms inp = (last_feeding_ticks s + d) mod TICKS_PERIOD"
  shows "elapsed_ms inp s = (if d < TICKS_PERIOD div 2 then d else d - TICKS_PERIOD)"
proof -
  have "(ticks_ms inp - last_feeding_ticks s) mod TICKS_PERIOD
      = ((last_feeding_ticks s + d) mod TICKS_PERIOD - last_feeding_ticks s) mod TICKS_PERIOD"
    by (simp only: assms(3))
  also have "\<dots> = (last_feeding_ticks s + d - last_feeding_ticks s) mod TICKS_PERIOD"
    by (rule mod_diff_left_eq)
  also have "\<dots> = d mod TICKS_PERIOD"
    by (rule arg_cong [where f = "\<lambda>v. v mod TICKS_PERIOD"]) linarith
  also have "\<dots> = d"
    using assms(1,2) by (rule mod_pos_pos_trivial)
  finally have distance: "(ticks_ms inp - last_feeding_ticks s) mod TICKS_PERIOD = d" .
  show ?thesis
    unfolding elapsed_ms_def ticks_diff_cases distance ..
qed

text \<open>
  The counter was 1000 ms before its wrap at the last feeding and reads 500 now; and
  the last feeding was at tick 0 and the counter reads \<open>2 ^ 29\<close>.
\<close>

theorem elapsed_is_forward_duration_witness:
  "((0::int) \<le> 1500 \<and> 1500 < TICKS_PERIOD
    \<and> ticks_ms \<lparr>button_value = False, ticks_ms = 500\<rparr>
        = (last_feeding_ticks
             \<lparr>feeding_required = False, last_feeding_ticks = 1073740824, feed_indicator = False\<rparr>
           + 1500) mod TICKS_PERIOD
    \<and> elapsed_ms \<lparr>button_value = False, ticks_ms = 500\<rparr>
         \<lparr>feeding_required = False, last_feeding_ticks = 1073740824, feed_indicator = False\<rparr>
       = 1500)
   \<and> ((0::int) \<le> 536870912 \<and> 536870912 < TICKS_PERIOD
    \<and> ticks_ms \<lparr>button_value = False, ticks_ms = 536870912\<rparr>
        = (last_feeding_ticks
             \<lparr>feeding_required = False, last_feeding_ticks = 0, feed_indicator = False\<rparr>
           + 536870912) mod TICKS_PERIOD
    \<and> elapsed_ms \<lparr>button_value = False, ticks_ms = 536870912\<rparr>
         \<lparr>feeding_required = False, last_feeding_ticks = 0, feed_indicator = False\<rparr>
       = 536870912 - TICKS_PERIOD)"
  using elapsed_is_forward_duration
      [of 1500 "\<lparr>button_value = False, ticks_ms = 500\<rparr>"
          "\<lparr>feeding_required = False, last_feeding_ticks = 1073740824, feed_indicator = False\<rparr>"]
    elapsed_is_forward_duration
      [of 536870912 "\<lparr>button_value = False, ticks_ms = 536870912\<rparr>"
          "\<lparr>feeding_required = False, last_feeding_ticks = 0, feed_indicator = False\<rparr>"]
  by (simp add: TICKS_PERIOD_def)

text \<open>
  Not so for every pair of counter values: with the last feeding at tick 0 and the
  counter at \<open>2 ^ 29\<close>, not yet wrapped, the elapsed time is negative.
\<close>

theorem elapsed_half_period_counterexample:
  "(0::int) \<le> 536870912 \<and> 536870912 < TICKS_PERIOD
   \<and> elapsed_ms \<lparr>button_value = False, ticks_ms = 536870912\<rparr>
        \<lparr>feeding_required = False, last_feeding_ticks = 0, feed_indicator = False\<rparr>
      = - 536870912"
  by (simp add: elapsed_ms_def ticks_diff_def TICKS_PERIOD_def)

section \<open>The threshold\<close>

text \<open>
  C3, as the code has it. For every setting whose delay is below half the tick period,
  and every \<^verbatim>\<open>last_feeding_ticks\<close>, an iteration with no feeding required leaves
  the flag false when the counter reads one millisecond less than the delay after the
  last feeding, and sets it when the counter reads exactly the delay after it: the
  comparison is \<^verbatim>\<open>feed_delay_ms <= elapsed_ms\<close>.
\<close>

theorem threshold_is_inclusive:
  assumes "\<not> feeding_required s"
    and "0 \<le> feed_delay_ms cfg"
    and "feed_delay_ms cfg < TICKS_PERIOD div 2"
  shows "\<not> feeding_required (fst (tick cfg
            \<lparr>button_value = b,
             ticks_ms = (last_feeding_ticks s + (feed_delay_ms cfg - 1)) mod TICKS_PERIOD\<rparr> s))
       \<and> feeding_required (fst (tick cfg
            \<lparr>button_value = b,
             ticks_ms = (last_feeding_ticks s + feed_delay_ms cfg) mod TICKS_PERIOD\<rparr> s))"
proof -
  have half: "0 < TICKS_PERIOD div 2"
    by (simp add: TICKS_PERIOD_def)
  have before: "ticks_diff ((last_feeding_ticks s + (feed_delay_ms cfg - 1)) mod TICKS_PERIOD)
                  (last_feeding_ticks s) = feed_delay_ms cfg - 1"
    using assms(2,3) half by (intro ticks_diff_after) linarith+
  have at: "ticks_diff ((last_feeding_ticks s + feed_delay_ms cfg) mod TICKS_PERIOD)
              (last_feeding_ticks s) = feed_delay_ms cfg"
    using assms(2,3) half by (intro ticks_diff_after) linarith+
  show ?thesis
    using assms(1) by (simp add: tick_def elapsed_ms_def before at Let_def)
qed

text \<open>
  The shipped 6 hours, with the last feeding 1000 ms before the counter wraps.
\<close>

theorem threshold_is_inclusive_witness:
  "\<not> feeding_required
       \<lparr>feeding_required = False, last_feeding_ticks = 1073740824, feed_indicator = False\<rparr>
   \<and> 0 \<le> feed_delay_ms shipped_settings
   \<and> feed_delay_ms shipped_settings < TICKS_PERIOD div 2
   \<and> \<not> feeding_required (fst (tick shipped_settings
           \<lparr>button_value = False, ticks_ms = 21598999\<rparr>
           \<lparr>feeding_required = False, last_feeding_ticks = 1073740824, feed_indicator = False\<rparr>))
   \<and> feeding_required (fst (tick shipped_settings
           \<lparr>button_value = False, ticks_ms = 21599000\<rparr>
           \<lparr>feeding_required = False, last_feeding_ticks = 1073740824, feed_indicator = False\<rparr>))"
  using threshold_is_inclusive
    [of "\<lparr>feeding_required = False, last_feeding_ticks = 1073740824, feed_indicator = False\<rparr>"
        shipped_settings False]
  by (simp add: shipped_settings_def feed_delay_ms_def TICKS_PERIOD_def)

text \<open>
  Not so for every interval: a delay of 150 hours is 540000000 ms, more than
  \<^verbatim>\<open>ticks_diff\<close> can return, and the iteration at that reading keeps waiting.
\<close>

theorem threshold_150h_counterexample:
  "feed_delay_ms \<lparr>feed_delay_hr = 150, feed_delay_min = 0\<rparr> = 540000000
   \<and> 0 + 540000000 < TICKS_PERIOD
   \<and> \<not> feeding_required (fst (tick \<lparr>feed_delay_hr = 150, feed_delay_min = 0\<rparr>
         \<lparr>button_value = False, ticks_ms = 0 + 540000000\<rparr>
         \<lparr>feeding_required = False, last_feeding_ticks = 0, feed_indicator = False\<rparr>))"
  by code_simp

text \<open>
  C9. An iteration with no feeding required and less than the delay elapsed leaves the
  flag, the tick value of the last feeding and the pin as they are; it prints the
  countdown and sleeps for a minute.
\<close>

theorem waiting_tick_below_threshold_changes_nothing:
  assumes "\<not> feeding_required s"
    and "elapsed_ms inp s < feed_delay_ms cfg"
  shows "fst (tick cfg inp s) = s
       \<and> snd (tick cfg inp s)
           = [Print (countdown_message (remaining_hours cfg (elapsed_ms inp s))
                                       (remaining_mins cfg (elapsed_ms inp s))),
              Lightsleep ms_in_one_minute]"
  using assms by (simp add: tick_def Let_def)

theorem waiting_tick_below_threshold_changes_nothing_witness:
  "\<not> feeding_required
       \<lparr>feeding_required = False, last_feeding_ticks = 1000, feed_indicator = False\<rparr>
   \<and> elapsed_ms \<lparr>button_value = True, ticks_ms = 61000\<rparr>
        \<lparr>feeding_required = False, last_feeding_ticks = 1000, feed_indicator = False\<rparr>
       < feed_delay_ms shipped_settings
   \<and> fst (tick shipped_settings \<lparr>button_value = True, ticks_ms = 61000\<rparr>
        \<lparr>feeding_required = False, last_feeding_ticks = 1000, feed_indicator = False\<rparr>)
       = \<lparr>feeding_required = False, last_feeding_ticks = 1000, feed_indicator = False\<rparr>"
proof -
  let ?s = "\<lparr>feeding_required = False, last_feeding_ticks = 1000, feed_indicator = False\<rparr>"
  let ?inp = "\<lparr>button_value = True, ticks_ms = 61000\<rparr>"
  have waiting: "\<not> feeding_required ?s"
    by simp
  have below: "elapsed_ms ?inp ?s < feed_delay_ms shipped_settings"
    by (simp add: elapsed_ms_def ticks_diff_def TICKS_PERIOD_def shipped_settings_def
        feed_delay_ms_def)
  from waiting_tick_below_threshold_changes_nothing [OF waiting below] waiting below
  show ?thesis
    by blast
qed

text \<open>
  A delay of 0 ms is reached by every elapsed time that is not negative, which is every
  reading less than half a period after the last feeding.
\<close>

lemma zero_delay_tick:
  assumes "feed_delay_hr cfg = 0"
    and "feed_delay_min cfg = 0"
    and "\<not> feeding_required s"
    and "(ticks_ms inp - last_feeding_ticks s) mod TICKS_PERIOD < TICKS_PERIOD div 2"
  shows "feed_delay_ms cfg = 0
       \<and> feed_delay_ms cfg \<le> elapsed_ms inp s
       \<and> feeding_required (fst (tick cfg inp s))
       \<and> feed_indicator (fst (tick cfg inp s))"
proof -
  have zero: "feed_delay_ms cfg = 0"
    using assms(1,2) by (simp add: feed_delay_ms_def)
  have "elapsed_ms inp s = (ticks_ms inp - last_feeding_ticks s) mod TICKS_PERIOD"
    using assms(4) by (simp add: elapsed_ms_def ticks_diff_cases)
  moreover have "0 \<le> (ticks_ms inp - last_feeding_ticks s) mod TICKS_PERIOD"
    using ticks_period_pos by simp
  ultimately have reached: "feed_delay_ms cfg \<le> elapsed_ms inp s"
    using zero by simp
  with assms(3) zero show ?thesis
    by (simp add: tick_def Let_def)
qed

text \<open>
  The iterations so far, and one more.
\<close>

lemma run_snoc: "run cfg (inps @ [inp]) s = fst (tick cfg inp (run cfg inps s))"
  by (induction inps arbitrary: s) simp_all

lemma steady_clock_snoc:
  assumes "steady_clock (inps @ [inp])"
  shows "steady_clock inps" and "inps \<noteq> [] \<Longrightarrow> close_after (last inps) inp"
  using assms
proof (induction inps rule: steady_clock.induct)
  case (1 earlier later rest)
  {
    case 1
    then show ?case using "1.IH" by simp
  next
    case 2
    then show ?case using "1.IH" by simp
  }
qed simp_all

text \<open>
  With a delay of 0 ms and a steady clock, a controller found waiting after some
  iterations has been fed in the last of them: its tick value is that iteration's
  reading.
\<close>

lemma waiting_since_last_reading:
  assumes "feed_delay_hr cfg = 0"
    and "feed_delay_min cfg = 0"
  shows "steady_clock inps \<Longrightarrow> \<not> feeding_required (run cfg inps power_on) \<Longrightarrow>
         inps \<noteq> [] \<and> last_feeding_ticks (run cfg inps power_on) = ticks_ms (last inps)"
proof (induction inps rule: rev_induct)
  case Nil
  then show ?case by (simp add: power_on_def)
next
  case (snoc inp inps)
  let ?s = "run cfg inps power_on"
  have after: "run cfg (inps @ [inp]) power_on = fst (tick cfg inp ?s)"
    by (rule run_snoc)
  have steady: "steady_clock inps"
    using snoc.prems(1) by (rule steady_clock_snoc(1))
  show ?case
  proof (cases "feeding_required ?s")
    case True
    with snoc.prems(2) show ?thesis
      unfolding after by (simp add: tick_def split: if_splits)
  next
    case False
    with snoc.IH steady
    have some: "inps \<noteq> []" and since: "last_feeding_ticks ?s = ticks_ms (last inps)"
      by simp_all
    from snoc.prems(1) some have "close_after (last inps) inp"
      by (rule steady_clock_snoc(2))
    then have "(ticks_ms inp - last_feeding_ticks ?s) mod TICKS_PERIOD < TICKS_PERIOD div 2"
      by (simp add: close_after_def since)
    with assms False have "feeding_required (fst (tick cfg inp ?s))"
      by (simp add: zero_delay_tick)
    with snoc.prems(2) show ?thesis
      unfolding after by simp
  qed
qed

text \<open>
  C10. With 0 hours and 0 minutes the delay is 0 ms. Whenever the controller, started
  at power-on and run under a steady clock, is waiting at the start of an iteration,
  that iteration has \<^verbatim>\<open>feed_delay_ms <= elapsed_ms\<close> and sets the flag and the pin
  again: the controller is never waiting after two iterations in a row.
\<close>

theorem zero_interval_never_waits:
  assumes "feed_delay_hr cfg = 0"
    and "feed_delay_min cfg = 0"
    and "steady_clock (inps @ [inp])"
    and "\<not> feeding_required (run cfg inps power_on)"
  shows "feed_delay_ms cfg = 0
       \<and> feed_delay_ms cfg \<le> elapsed_ms inp (run cfg inps power_on)
       \<and> feeding_required (run cfg (inps @ [inp]) power_on)
       \<and> feed_indicator (run cfg (inps @ [inp]) power_on)"
proof -
  let ?s = "run cfg inps power_on"
  have steady: "steady_clock inps"
    using assms(3) by (rule steady_clock_snoc(1))
  from waiting_since_last_reading [OF assms(1,2) steady assms(4)]
  have some: "inps \<noteq> []" and since: "last_feeding_ticks ?s = ticks_ms (last inps)"
    by simp_all
  from assms(3) some have "close_after (last inps) inp"
    by (rule steady_clock_snoc(2))
  then have near: "(ticks_ms inp - last_feeding_ticks ?s) mod TICKS_PERIOD < TICKS_PERIOD div 2"
    by (simp add: close_after_def since)
  from zero_delay_tick [OF assms(1,2,4) near] show ?thesis
    by (simp add: run_snoc)
qed

text \<open>
  An idle iteration, then the button 4 ms before the counter wraps, then the next
  iteration 3 ms after the wrap.
\<close>

theorem zero_interval_never_waits_witness:
  "feed_delay_hr \<lparr>feed_delay_hr = 0, feed_delay_min = 0\<rparr> = 0
   \<and> feed_delay_min \<lparr>feed_delay_hr = 0, feed_delay_min = 0\<rparr> = 0
   \<and> steady_clock ([\<lparr>button_value = False, ticks_ms = 1073741500\<rparr>,
                    \<lparr>button_value = True, ticks_ms = 1073741820\<rparr>]
                   @ [\<lparr>button_value = False, ticks_ms = 3\<rparr>])
   \<and> \<not> feeding_required (run \<lparr>feed_delay_hr = 0, feed_delay_min = 0\<rparr>
          [\<lparr>button_value = False, ticks_ms = 1073741500\<rparr>,
           \<lparr>button_value = True, ticks_ms = 1073741820\<rparr>] power_on)
   \<and> run \<lparr>feed_delay_hr = 0, feed_delay_min = 0\<rparr>
        ([\<lparr>button_value = False, ticks_ms = 1073741500\<rparr>,
          \<lparr>button_value = True, ticks_ms = 1073741820\<rparr>]
         @ [\<lparr>button_value = False, ticks_ms = 3\<rparr>]) power_on
       = \<lparr>feeding_required = True, last_feeding_ticks = 1073741820, feed_indicator = True\<rparr>"
proof -
  let ?cfg = "\<lparr>feed_delay_hr = 0, feed_delay_min = 0\<rparr>"
  let ?inps = "[\<lparr>button_value = False, ticks_ms = 1073741500\<rparr>,
                \<lparr>button_value = True, ticks_ms = 1073741820\<rparr>]"
  let ?inp = "\<lparr>button_value = False, ticks_ms = 3\<rparr>"
  have steady: "steady_clock (?inps @ [?inp])"
    by (simp add: close_after_def TICKS_PERIOD_def)
  have fed: "run ?cfg ?inps power_on
      = \<lparr>feeding_required = False, last_feeding_ticks = 1073741820, feed_indicator = False\<rparr>"
    by (simp add: tick_def power_on_def)
  then have waiting: "\<not> feeding_required (run ?cfg ?inps power_on)"
    by simp
  have "feeding_required (run ?cfg (?inps @ [?inp]) power_on)"
    using zero_interval_never_waits [of ?cfg ?inps ?inp, OF _ _ steady waiting] by simp
  then have "run ?cfg (?inps @ [?inp]) power_on
      = \<lparr>feeding_required = True, last_feeding_ticks = 1073741820, feed_indicator = True\<rparr>"
    unfolding run_snoc fed by (simp add: tick_def Let_def split: if_splits)
  with steady waiting show ?thesis
    by simp
qed

section \<open>The button\<close>

text \<open>
  C5. While no feeding is required the button is not read: an iteration gives the same
  state and the same output whether it is pressed or not. While a feeding is required
  a pressed button switches the pin off, takes the tick value and clears the flag, and
  a released one changes nothing.
\<close>

theorem button_ignored_while_waiting:
  "(\<not> feeding_required s \<longrightarrow>
      tick cfg \<lparr>button_value = True, ticks_ms = now\<rparr> s
        = tick cfg \<lparr>button_value = False, ticks_ms = now\<rparr> s)
   \<and> (feeding_required s \<longrightarrow>
        fst (tick cfg \<lparr>button_value = True, ticks_ms = now\<rparr> s)
          = s\<lparr>feed_indicator := False, last_feeding_ticks := now, feeding_required := False\<rparr>
        \<and> fst (tick cfg \<lparr>button_value = False, ticks_ms = now\<rparr> s) = s)"
  by (simp add: tick_def elapsed_ms_def)

theorem button_ignored_while_waiting_witness:
  "(\<not> feeding_required
        \<lparr>feeding_required = False, last_feeding_ticks = 1000, feed_indicator = False\<rparr>
    \<and> tick shipped_settings \<lparr>button_value = True, ticks_ms = 61000\<rparr>
          \<lparr>feeding_required = False, last_feeding_ticks = 1000, feed_indicator = False\<rparr>
        = tick shipped_settings \<lparr>button_value = False, ticks_ms = 61000\<rparr>
            \<lparr>feeding_required = False, last_feeding_ticks = 1000, feed_indicator = False\<rparr>)
   \<and> (feeding_required power_on
      \<and> fst (tick shipped_settings \<lparr>button_value = True, ticks_ms = 61000\<rparr> power_on)
          = \<lparr>feeding_required = False, last_feeding_ticks = 61000, feed_indicator = False\<rparr>
      \<and> fst (tick shipped_settings \<lparr>button_value = False, ticks_ms = 61000\<rparr> power_on)
          = power_on)"
  using button_ignored_while_waiting
      [of "\<lparr>feeding_required = False, last_feeding_ticks = 1000, feed_indicator = False\<rparr>"
          shipped_settings 61000]
    button_ignored_while_waiting [of power_on shipped_settings 61000]
  by (simp add: power_on_def)

section \<open>Light sleep\<close>

text \<open>
  C6. An iteration that starts with no feeding required and ends with the flag set
  (which is when the delay has elapsed) prints the countdown and nothing else: it
  reaches \<^verbatim>\<open>continue\<close> and not the light sleep. The iteration after it does not
  sleep either, so the loop is back at the button without a wait.
\<close>

theorem no_sleep_on_trigger:
  assumes "\<not> feeding_required s"
    and "feeding_required (fst (tick cfg inp s))"
  shows "feed_delay_ms cfg \<le> elapsed_ms inp s
       \<and> filter is_Lightsleep (snd (tick cfg inp s)) = []
       \<and> snd (tick cfg inp s)
           = [Print (countdown_message (remaining_hours cfg (elapsed_ms inp s))
                                       (remaining_mins cfg (elapsed_ms inp s)))]
       \<and> filter is_Lightsleep (trace cfg [inp, next_inp] s) = []"
proof -
  have reached: "feed_delay_ms cfg \<le> elapsed_ms inp s"
  proof (rule ccontr)
    assume "\<not> feed_delay_ms cfg \<le> elapsed_ms inp s"
    with assms(1) have "fst (tick cfg inp s) = s"
      by (simp add: tick_def Let_def)
    with assms show False
      by simp
  qed
  with assms(1) have this_one: "snd (tick cfg inp s)
      = [Print (countdown_message (remaining_hours cfg (elapsed_ms inp s))
                                  (remaining_mins cfg (elapsed_ms inp s)))]"
    by (simp add: tick_def Let_def)
  from assms(2) have next_one: "filter is_Lightsleep (snd (tick cfg next_inp (fst (tick cfg inp s)))) = []"
    by (simp add: tick_def [of cfg next_inp])
  from reached this_one next_one show ?thesis
    by simp
qed

theorem no_sleep_on_trigger_witness:
  "\<not> feeding_required
       \<lparr>feeding_required = False, last_feeding_ticks = 0, feed_indicator = False\<rparr>
   \<and> feeding_required (fst (tick shipped_settings
         \<lparr>button_value = False, ticks_ms = 21600000\<rparr>
         \<lparr>feeding_required = False, last_feeding_ticks = 0, feed_indicator = False\<rparr>))
   \<and> filter is_Lightsleep (snd (tick shipped_settings
         \<lparr>button_value = False, ticks_ms = 21600000\<rparr>
         \<lparr>feeding_required = False, last_feeding_ticks = 0, feed_indicator = False\<rparr>)) = []"
proof -
  let ?s = "\<lparr>feeding_required = False, last_feeding_ticks = 0, feed_indicator = False\<rparr>"
  let ?inp = "\<lparr>button_value = False, ticks_ms = 21600000\<rparr>"
  have waiting: "\<not> feeding_required ?s"
    by simp
  have triggered: "feeding_required (fst (tick shipped_settings ?inp ?s))"
    by (simp add: tick_def elapsed_ms_def ticks_diff_def TICKS_PERIOD_def
        shipped_settings_def feed_delay_ms_def Let_def)
  from no_sleep_on_trigger [OF waiting triggered] waiting triggered
  show ?thesis
    by blast
qed

text \<open>
  C8. An iteration that starts with a feeding required never sleeps and its result
  depends on the button, which it reads. Any iteration sleeps at most once, for one
  minute.
\<close>

theorem no_sleep_while_feeding_required:
  "(feeding_required s \<longrightarrow>
      filter is_Lightsleep (snd (tick cfg inp s)) = []
      \<and> lightsleep_total (snd (tick cfg inp s)) = 0
      \<and> fst (tick cfg inp s)
          = (if button_value inp
             then s\<lparr>feed_indicator := False, last_feeding_ticks := ticks_ms inp,
                    feeding_required := False\<rparr>
             else s))
   \<and> length (filter is_Lightsleep (snd (tick cfg inp s))) \<le> 1
   \<and> lightsleep_total (snd (tick cfg inp s)) \<le> ms_in_one_minute"
  by (simp add: tick_def Let_def ms_in_one_minute_def)

theorem no_sleep_while_feeding_required_witness:
  "feeding_required power_on
   \<and> filter is_Lightsleep
        (snd (tick shipped_settings \<lparr>button_value = True, ticks_ms = 250\<rparr> power_on)) = []
   \<and> lightsleep_total
        (snd (tick shipped_settings \<lparr>button_value = True, ticks_ms = 250\<rparr> power_on)) = 0
   \<and> fst (tick shipped_settings \<lparr>button_value = True, ticks_ms = 250\<rparr> power_on)
       = \<lparr>feeding_required = False, last_feeding_ticks = 250, feed_indicator = False\<rparr>"
  using no_sleep_while_feeding_required
    [of power_on shipped_settings "\<lparr>button_value = True, ticks_ms = 250\<rparr>"]
  by (simp add: power_on_def)

end
